theory Spec2Isabelle
  imports Complex_Main "HOL-Library.AList" "HOL-Library.Sublist"
begin

section \<open>Python values used by the server\<close>

text \<open>
  Exceptions of the Python code are values: every function that can raise returns
  \<open>error + 'a\<close>, with \<open>Inl\<close> for the exception.
\<close>

datatype error = IndexError | KeyError | ValueError string

text \<open>
  \<open>str(n)\<close> of a Python integer, as the f-strings of \<open>board_state.py\<close> use it for
  coordinates in log lines and in the keys \<open>"row_col"\<close> of the coordinate index.
\<close>

definition digit_char :: "nat \<Rightarrow> char" where
  "digit_char d = char_of (48 + d)"

function str_nat :: "nat \<Rightarrow> string" where
  "str_nat n = (if n < 10 then [digit_char n] else str_nat (n div 10) @ [digit_char (n mod 10)])"
  by pat_completeness auto
termination
  by (relation "measure (\<lambda>n. n)") auto

declare str_nat.simps [simp del]

definition str_int :: "int \<Rightarrow> string" where
  "str_int i = (if i < 0 then CHR ''-'' # str_nat (nat (- i)) else str_nat (nat i))"

text \<open>
  A \<open>uuid.UUID\<close> value is represented by its canonical text, the string that Python's
  \<open>str()\<close> returns for it; two UUIDs are equal exactly when their canonical texts are.
\<close>

datatype uuid = UUID (str_uuid: string)

text \<open>
  Indexing a Python list of length \<open>n\<close>: indices \<open>0..n-1\<close> and the negative indices
  \<open>-n..-1\<close> (counted from the end) are accepted, everything else raises IndexError.
\<close>

definition py_index :: "nat \<Rightarrow> int \<Rightarrow> nat option" where
  "py_index n i =
     (if 0 \<le> i \<and> i < int n then Some (nat i)
      else if i < 0 \<and> - int n \<le> i then Some (nat (int n + i))
      else None)"

section \<open>board\_state.py\<close>

datatype GameStatus =
  WAITING | IN_PROGRESS | FINISHED | RESIGNED | DRAW | CHECK | CHECKMATE | STALEMATE

fun GameStatus_value :: "GameStatus \<Rightarrow> string" where
  "GameStatus_value WAITING = ''waiting''"
| "GameStatus_value IN_PROGRESS = ''in_progress''"
| "GameStatus_value FINISHED = ''finished''"
| "GameStatus_value RESIGNED = ''resigned''"
| "GameStatus_value DRAW = ''draw''"
| "GameStatus_value CHECK = ''check''"
| "GameStatus_value CHECKMATE = ''checkmate''"
| "GameStatus_value STALEMATE = ''stalemate''"

text \<open>\<open>GameStatus(s)\<close>: the member whose value is \<open>s\<close>, ValueError when there is none.\<close>

definition GameStatus_of_value :: "string \<Rightarrow> error + GameStatus" where
  "GameStatus_of_value s =
     (if s = ''waiting'' then Inr WAITING
      else if s = ''in_progress'' then Inr IN_PROGRESS
      else if s = ''finished'' then Inr FINISHED
      else if s = ''resigned'' then Inr RESIGNED
      else if s = ''draw'' then Inr DRAW
      else if s = ''check'' then Inr CHECK
      else if s = ''checkmate'' then Inr CHECKMATE
      else if s = ''stalemate'' then Inr STALEMATE
      else Inl (ValueError s))"

text \<open>
  The fields of the pydantic model \<open>Piece\<close>. The same record is the result of
  \<open>model_dump()\<close>: a snapshot of the field values, detached from the object.
\<close>

record Piece =
  figure_id :: string
  name :: string
  color :: string
  row :: int
  col :: int
  is_first_move :: bool
  description :: string
  copied_figure :: "string option"
  unavailable_copy :: "string list"
  mode :: int
  hero :: "string option"
  death :: int
  aura :: int
  condition :: int
  move_creation :: int
  walk_count :: int

text \<open>A card of a hand: a dictionary the server carries along and never reads.\<close>

type_synonym card = "(string \<times> string) list"

text \<open>
  \<open>Piece\<close> objects are mutable and shared: \<open>_figure_id_to_piece_map\<close> and
  \<open>_coord_to_piece_map\<close> hold references to the same object, while the grid \<open>board\<close>
  holds \<open>model_dump()\<close> snapshots. The model keeps the objects in a store
  \<open>objects\<close> indexed by references; the two indexes map keys to references.

  \<open>_figure_id_to_piece_map\<close> is an association list in insertion order, because
  \<open>to_json_serializable\<close> iterates over its values; \<open>_coord_to_piece_map\<close> is only
  ever looked up by key. \<open>players\<close> maps a colour to an optional player id
  (\<open>None\<close> is Python's \<open>None\<close> value under a key that is present).
  \<open>self.board_size\<close> is set to 8 by the constructor and never assigned again.
\<close>

type_synonym ref = nat

definition board_size :: int where
  "board_size = 8"

record BoardState =
  current_player :: string
  white_hand :: "card list"
  black_hand :: "card list"
  white_double_add :: int
  black_double_add :: int
  game_log :: "string list"
  moves_log :: "string list"
  cards_count :: int
  game_status :: GameStatus
  day_night_cycle :: string
  turn_number :: int
  players :: "string \<rightharpoonup> string option"
  last_move_at :: "real option"
  board :: "Piece option list list"
  objects :: "ref \<Rightarrow> Piece"
  figure_id_to_piece_map :: "(string \<times> ref) list"
  coord_to_piece_map :: "string \<rightharpoonup> ref"

text \<open>The key \<open>f"{row}_{col}"\<close> of the coordinate index.\<close>

definition coord_key :: "int \<Rightarrow> int \<Rightarrow> string" where
  "coord_key r c = str_int r @ ''_'' @ str_int c"

text \<open>\<open>self.board[r][c] = v\<close>\<close>

definition board_set ::
  "Piece option list list \<Rightarrow> int \<Rightarrow> int \<Rightarrow> Piece option \<Rightarrow> error + Piece option list list" where
  "board_set g r c v =
     (case py_index (length g) r of
        None \<Rightarrow> Inl IndexError
      | Some i \<Rightarrow>
          (case py_index (length (g ! i)) c of
             None \<Rightarrow> Inl IndexError
           | Some j \<Rightarrow> Inr (g[i := (g ! i)[j := v]])))"

text \<open>
  The dictionary handed to \<open>BoardState.__init__\<close> and returned by
  \<open>to_json_serializable\<close>. Every key may be absent (\<open>None\<close>), since the constructor
  reads each one with \<open>initial_data.get(key, default)\<close>. The entries of
  \<open>board_pieces\<close> are the keyword arguments of \<open>Piece(**piece_data)\<close>, taken as
  already validated.
\<close>

record state_data =
  d_board_size :: "int option"
  d_board_pieces :: "Piece list option"
  d_current_player :: "string option"
  d_white_hand :: "card list option"
  d_black_hand :: "card list option"
  d_white_double_add :: "int option"
  d_black_double_add :: "int option"
  d_game_log :: "string list option"
  d_moves_log :: "string list option"
  d_cards_count :: "int option"
  d_game_status :: "string option"
  d_day_night_cycle :: "string option"
  d_turn_number :: "int option"
  d_players :: "(string \<rightharpoonup> string option) option"
  d_last_move_at :: "real option option"

text \<open>\<open>d.get(key, default)\<close>\<close>

definition get_default :: "'a option \<Rightarrow> 'a \<Rightarrow> 'a" where
  "get_default v dflt = (case v of None \<Rightarrow> dflt | Some x \<Rightarrow> x)"

text \<open>A store slot that no reference points to.\<close>

definition unallocated :: Piece where
  "unallocated = \<lparr>figure_id = [], name = [], color = [], row = 0, col = 0,
     is_first_move = True, description = [], copied_figure = None, unavailable_copy = [],
     mode = 1, hero = None, death = 0, aura = 0, condition = 0, move_creation = 0,
     walk_count = 0\<rparr>"

text \<open>
  The loop at the end of \<open>__init__\<close>: the \<open>i\<close>-th entry of \<open>board_pieces\<close> becomes
  the object with reference \<open>i\<close>, is written to the grid as a snapshot and entered in
  both indexes.
\<close>

fun place_pieces :: "BoardState \<Rightarrow> ref \<Rightarrow> Piece list \<Rightarrow> error + BoardState" where
  "place_pieces self i [] = Inr self"
| "place_pieces self i (piece # rest) =
     (case board_set (board self) (row piece) (col piece) (Some piece) of
        Inl e \<Rightarrow> Inl e
      | Inr g \<Rightarrow>
          place_pieces
            (self\<lparr>board := g,
                  objects := (objects self)(i := piece),
                  figure_id_to_piece_map :=
                    AList.update (figure_id piece) i (figure_id_to_piece_map self),
                  coord_to_piece_map :=
                    (coord_to_piece_map self)(coord_key (row piece) (col piece) \<mapsto> i)\<rparr>)
            (Suc i) rest)"

definition BoardState_init :: "state_data \<Rightarrow> error + BoardState" where
  "BoardState_init initial_data =
     (case GameStatus_of_value (get_default (d_game_status initial_data) ''waiting'') of
        Inl e \<Rightarrow> Inl e
      | Inr st \<Rightarrow>
          place_pieces
            \<lparr>current_player = get_default (d_current_player initial_data) ''white'',
             white_hand = get_default (d_white_hand initial_data) [],
             black_hand = get_default (d_black_hand initial_data) [],
             white_double_add = get_default (d_white_double_add initial_data) 0,
             black_double_add = get_default (d_black_double_add initial_data) 0,
             game_log = get_default (d_game_log initial_data) [],
             moves_log = get_default (d_moves_log initial_data) [],
             cards_count = get_default (d_cards_count initial_data) 0,
             game_status = st,
             day_night_cycle = get_default (d_day_night_cycle initial_data) ''day'',
             turn_number = get_default (d_turn_number initial_data) 0,
             players = get_default (d_players initial_data)
                         [''white'' \<mapsto> None, ''black'' \<mapsto> None],
             last_move_at = get_default (d_last_move_at initial_data) None,
             board = replicate (nat board_size) (replicate (nat board_size) None),
             objects = (\<lambda>_. unallocated),
             figure_id_to_piece_map = [],
             coord_to_piece_map = Map.empty\<rparr>
            0
            (get_default (d_board_pieces initial_data) []))"

text \<open>\<open>_remove_piece_from_board\<close>; \<open>piece\<close> is a reference to the object.\<close>

definition remove_piece_from_board :: "BoardState \<Rightarrow> ref \<Rightarrow> error + BoardState" where
  "remove_piece_from_board self piece =
     (case board_set (board self) (row (objects self piece)) (col (objects self piece)) None of
        Inl e \<Rightarrow> Inl e
      | Inr g \<Rightarrow>
          Inr (self\<lparr>board := g,
                    coord_to_piece_map :=
                      (coord_to_piece_map self)
                        (coord_key (row (objects self piece)) (col (objects self piece)) := None),
                    figure_id_to_piece_map :=
                      AList.delete (figure_id (objects self piece))
                        (figure_id_to_piece_map self)\<rparr>))"

text \<open>\<open>_get_piece_at\<close>\<close>

definition get_piece_at :: "BoardState \<Rightarrow> int \<Rightarrow> int \<Rightarrow> ref option" where
  "get_piece_at self r c = coord_to_piece_map self (coord_key r c)"

text \<open>\<open>to_json_serializable\<close>\<close>

definition to_json_serializable :: "BoardState \<Rightarrow> state_data" where
  "to_json_serializable self =
     \<lparr>d_board_size = Some board_size,
      d_board_pieces = Some (map (\<lambda>(k, piece). objects self piece) (figure_id_to_piece_map self)),
      d_current_player = Some (current_player self),
      d_white_hand = Some (white_hand self),
      d_black_hand = Some (black_hand self),
      d_white_double_add = Some (white_double_add self),
      d_black_double_add = Some (black_double_add self),
      d_game_log = Some (game_log self),
      d_moves_log = Some (moves_log self),
      d_cards_count = Some (cards_count self),
      d_game_status = Some (GameStatus_value (game_status self)),
      d_day_night_cycle = Some (day_night_cycle self),
      d_turn_number = Some (turn_number self),
      d_players = Some (players self),
      d_last_move_at = Some (last_move_at self)\<rparr>"

text \<open>\<open>self.players.get(colour)\<close>: \<open>None\<close> for an absent key as for a \<open>None\<close> value.\<close>

definition players_get :: "BoardState \<Rightarrow> string \<Rightarrow> string option" where
  "players_get self c = (case players self c of None \<Rightarrow> None | Some v \<Rightarrow> v)"

text \<open>The log lines of \<open>move_piece\<close>, one definition for each f-string.\<close>

definition msg_not_found :: "string \<Rightarrow> string" where
  "msg_not_found fid = ''Error: Piece with ID '' @ fid @ '' not found.''"

definition msg_not_registered :: "uuid \<Rightarrow> string" where
  "msg_not_registered pid =
     ''Error: Player '' @ str_uuid pid @ '' is not a registered player in this game.''"

definition msg_wrong_turn :: "string \<Rightarrow> string \<Rightarrow> string" where
  "msg_wrong_turn cur actual =
     ''Error: It'' @ [CHR 0x27] @ ''s '' @ cur @ [CHR 0x27] @ ''s turn, but '' @ actual
       @ '' player tried to move.''"

definition msg_wrong_color :: "string \<Rightarrow> string \<Rightarrow> string" where
  "msg_wrong_color actual pc =
     ''Error: '' @ actual @ '' player tried to move a '' @ pc @ '' piece.''"

definition msg_invalid_coords :: "int \<Rightarrow> int \<Rightarrow> string \<Rightarrow> string" where
  "msg_invalid_coords r c fid =
     ''Error: Invalid coordinates ('' @ str_int r @ '', '' @ str_int c @ '') for piece ''
       @ fid @ ''.''"

definition msg_own_piece :: "int \<Rightarrow> int \<Rightarrow> Piece \<Rightarrow> string" where
  "msg_own_piece r c target =
     ''Error: Destination ('' @ str_int r @ '', '' @ str_int c @ '') occupied by own piece ''
       @ name target @ '' ('' @ figure_id target @ '').''"

definition msg_capture :: "Piece \<Rightarrow> Piece \<Rightarrow> int \<Rightarrow> int \<Rightarrow> string" where
  "msg_capture piece target r c =
     ''Piece '' @ figure_id piece @ '' ('' @ name piece @ '' '' @ color piece @ '') took ''
       @ figure_id target @ '' ('' @ name target @ '' '' @ color target @ '') at (''
       @ str_int r @ '', '' @ str_int c @ '').''"

definition msg_moves_log :: "string \<Rightarrow> string \<Rightarrow> int \<Rightarrow> int \<Rightarrow> int \<Rightarrow> int \<Rightarrow> string" where
  "msg_moves_log cur nm r0 c0 r c =
     cur @ '' '' @ nm @ '' from ('' @ str_int r0 @ '','' @ str_int c0 @ '') to (''
       @ str_int r @ '','' @ str_int c @ '')''"

definition msg_success :: "string \<Rightarrow> string \<Rightarrow> int \<Rightarrow> int \<Rightarrow> int \<Rightarrow> int \<Rightarrow> string \<Rightarrow> string" where
  "msg_success nm cl r0 c0 r c cur =
     ''Successful move: '' @ nm @ '' '' @ cl @ '' from ('' @ str_int r0 @ '', '' @ str_int c0
       @ '') to ('' @ str_int r @ '', '' @ str_int c @ ''). New current player: '' @ cur @ ''.''"

definition log_error :: "BoardState \<Rightarrow> string \<Rightarrow> BoardState" where
  "log_error self entry = self\<lparr>game_log := game_log self @ [entry]\<rparr>"

text \<open>
  The second half of \<open>move_piece\<close> (from the comment "perform the move"): clear the
  old cell and the old key, update the object in place, index it under the new key,
  write its snapshot to the new cell, extend \<open>moves_log\<close>, switch the player, count
  the turn, stamp the time, extend \<open>game_log\<close>. \<open>now\<close> is the value of
  \<open>time.time()\<close>.
\<close>

definition perform_move ::
  "BoardState \<Rightarrow> ref \<Rightarrow> int \<Rightarrow> int \<Rightarrow> int \<Rightarrow> int \<Rightarrow> real \<Rightarrow> error + BoardState" where
  "perform_move self piece old_row old_col new_row new_col now =
     (case board_set (board self) old_row old_col None of
        Inl e \<Rightarrow> Inl e
      | Inr g1 \<Rightarrow>
          (let coord1 = (coord_to_piece_map self)(coord_key old_row old_col := None);
               moved = (objects self piece)
                         \<lparr>row := new_row, col := new_col, is_first_move := False,
                          walk_count := walk_count (objects self piece) + 1\<rparr>;
               coord2 = coord1(coord_key new_row new_col \<mapsto> piece)
           in case board_set g1 new_row new_col (Some moved) of
                Inl e \<Rightarrow> Inl e
              | Inr g2 \<Rightarrow>
                  (let next_player =
                         (if current_player self = ''white'' then ''black'' else ''white'')
                   in Inr (self\<lparr>board := g2,
                                coord_to_piece_map := coord2,
                                objects := (objects self)(piece := moved),
                                moves_log := moves_log self @
                                  [msg_moves_log (current_player self) (name moved)
                                     old_row old_col new_row new_col],
                                current_player := next_player,
                                turn_number := turn_number self + 1,
                                last_move_at := Some now,
                                game_log := game_log self @
                                  [msg_success (name moved) (color moved)
                                     old_row old_col new_row new_col next_player]\<rparr>))))"

text \<open>
  The colour of the player who moves, lines 235 to 239 of \<open>move_piece\<close>:
  \<open>None\<close> when the id is bound to neither colour.
\<close>

definition actual_player_color :: "BoardState \<Rightarrow> uuid \<Rightarrow> string option" where
  "actual_player_color self player_making_move_id =
     (if Some (str_uuid player_making_move_id) = players_get self ''white'' then Some ''white''
      else if Some (str_uuid player_making_move_id) = players_get self ''black'' then Some ''black''
      else None)"

text \<open>
  \<open>move_piece\<close>. The result is the object itself after the call (\<open>return self\<close>), or
  the exception that escaped.
\<close>

definition move_piece ::
  "BoardState \<Rightarrow> string \<Rightarrow> int \<Rightarrow> int \<Rightarrow> uuid \<Rightarrow> real \<Rightarrow> error + BoardState" where
  "move_piece self fid new_row new_col player_making_move_id now =
     (case map_of (figure_id_to_piece_map self) fid of
        None \<Rightarrow> Inr (log_error self (msg_not_found fid))
      | Some piece \<Rightarrow>
          (case actual_player_color self player_making_move_id of
             None \<Rightarrow> Inr (log_error self (msg_not_registered player_making_move_id))
           | Some actual \<Rightarrow>
                  if actual \<noteq> current_player self
                  then Inr (log_error self (msg_wrong_turn (current_player self) actual))
                  else if color (objects self piece) \<noteq> actual
                  then Inr (log_error self (msg_wrong_color actual (color (objects self piece))))
                  else if \<not> (0 \<le> new_row \<and> new_row < board_size
                              \<and> 0 \<le> new_col \<and> new_col < board_size)
                  then Inr (log_error self
                              (msg_invalid_coords new_row new_col (figure_id (objects self piece))))
                  else
                    (let old_row = row (objects self piece);
                         old_col = col (objects self piece)
                     in case get_piece_at self new_row new_col of
                          None \<Rightarrow> perform_move self piece old_row old_col new_row new_col now
                        | Some target_piece \<Rightarrow>
                            if color (objects self target_piece) \<noteq> color (objects self piece)
                            then
                              (case remove_piece_from_board self target_piece of
                                 Inl e \<Rightarrow> Inl e
                               | Inr s1 \<Rightarrow>
                                   perform_move
                                     (s1\<lparr>game_log := game_log s1 @
                                           [msg_capture (objects s1 piece) (objects s1 target_piece)
                                              new_row new_col]\<rparr>)
                                     piece old_row old_col new_row new_col now)
                            else Inr (log_error self
                                        (msg_own_piece new_row new_col
                                           (objects self target_piece))))))"

text \<open>
  How the callers recognise a rejected move: \<open>"Error:" in last_log_entry\<close>
  (\<open>main.py\<close>, \<open>api/rooms.py\<close>).
\<close>

definition error_tagged :: "string \<Rightarrow> bool" where
  "error_tagged entry = sublist ''Error:'' entry"

text \<open>
  The six validation checks of \<open>move_piece\<close>, each as the condition under which the
  source's \<open>if\<close> takes the rejecting branch.
\<close>

definition fails_piece_exists :: "BoardState \<Rightarrow> string \<Rightarrow> bool" where
  "fails_piece_exists self fid = (map_of (figure_id_to_piece_map self) fid = None)"

definition fails_registered :: "BoardState \<Rightarrow> uuid \<Rightarrow> bool" where
  "fails_registered self pid = (actual_player_color self pid = None)"

definition fails_turn :: "BoardState \<Rightarrow> uuid \<Rightarrow> bool" where
  "fails_turn self pid =
     (case actual_player_color self pid of None \<Rightarrow> False
      | Some actual \<Rightarrow> actual \<noteq> current_player self)"

definition fails_own_color :: "BoardState \<Rightarrow> string \<Rightarrow> uuid \<Rightarrow> bool" where
  "fails_own_color self fid pid =
     (case (map_of (figure_id_to_piece_map self) fid, actual_player_color self pid) of
        (Some piece, Some actual) \<Rightarrow> color (objects self piece) \<noteq> actual
      | _ \<Rightarrow> False)"

definition fails_bounds :: "int \<Rightarrow> int \<Rightarrow> bool" where
  "fails_bounds new_row new_col =
     (\<not> (0 \<le> new_row \<and> new_row < board_size \<and> 0 \<le> new_col \<and> new_col < board_size))"

definition fails_occupancy :: "BoardState \<Rightarrow> string \<Rightarrow> int \<Rightarrow> int \<Rightarrow> bool" where
  "fails_occupancy self fid new_row new_col =
     (case (map_of (figure_id_to_piece_map self) fid, get_piece_at self new_row new_col) of
        (Some piece, Some target_piece) \<Rightarrow>
          color (objects self target_piece) = color (objects self piece)
      | _ \<Rightarrow> False)"

text \<open>
  An entry of \<open>INITIAL_BOARD_STATE_PIECES\<close> in \<open>config.py\<close>: every entry spells out the
  same values for the fields below and leaves \<open>is_first_move\<close> to its default.
\<close>

definition initial_piece :: "string \<Rightarrow> string \<Rightarrow> string \<Rightarrow> int \<Rightarrow> int \<Rightarrow> Piece" where
  "initial_piece fid nm cl r c =
     \<lparr>figure_id = fid, name = nm, color = cl, row = r, col = c, is_first_move = True,
      description = [], copied_figure = None, unavailable_copy = [], mode = 1, hero = None,
      death = 0, aura = 0, condition = 0, move_creation = 0, walk_count = 0\<rparr>"


definition example_board :: BoardState where
  "example_board =
     \<lparr>current_player = ''white'', white_hand = [], black_hand = [],
      white_double_add = 0, black_double_add = 0, game_log = [], moves_log = [],
      cards_count = 0, game_status = IN_PROGRESS, day_night_cycle = ''day'',
      turn_number = 0,
      players = [''white'' \<mapsto> Some ''A'', ''black'' \<mapsto> Some ''B''],
      last_move_at = None,
      board = replicate 5 (replicate 8 None) @
        [[None, Some (initial_piece ''b1'' ''Pawn'' ''black'' 5 1), None, None, None, None, None, None],
         [Some (initial_piece ''w1'' ''Pawn'' ''white'' 6 0), None, None, None, None, None, None, None],
         [Some (initial_piece ''w2'' ''Rook'' ''white'' 7 0), None, None, None, None, None, None, None]],
      objects = (\<lambda>_. unallocated)
        (0 := initial_piece ''w1'' ''Pawn'' ''white'' 6 0,
         1 := initial_piece ''b1'' ''Pawn'' ''black'' 5 1,
         2 := initial_piece ''w2'' ''Rook'' ''white'' 7 0),
      figure_id_to_piece_map = [(''w1'', 0), (''b1'', 1), (''w2'', 2)],
      coord_to_piece_map = [''6_0'' \<mapsto> 0, ''5_1'' \<mapsto> 1, ''7_0'' \<mapsto> 2]\<rparr>"

text \<open>The number that a string of decimal digits denotes; it reads \<open>str_nat\<close> back.\<close>

definition val_digits :: "string \<Rightarrow> nat" where
  "val_digits s = foldl (\<lambda>acc ch. 10 * acc + (of_char ch - 48)) 0 s"

section \<open>The consistency of the grid and the two indexes\<close>

definition in_bounds :: "int \<Rightarrow> int \<Rightarrow> bool" where
  "in_bounds r c \<longleftrightarrow> 0 \<le> r \<and> r < board_size \<and> 0 \<le> c \<and> c < board_size"

text \<open>The grid has \<open>board_size\<close> rows of \<open>board_size\<close> cells.\<close>

definition grid_ok :: "Piece option list list \<Rightarrow> bool" where
  "grid_ok g \<longleftrightarrow> length g = nat board_size \<and> (\<forall>rw \<in> set g. length rw = nat board_size)"

text \<open>
  The invariant of \<open>BoardState\<close>. The keys of the id index are distinct (it is a
  dictionary). Every object in the id index carries the id it is filed under, stands on
  the board, and is the object that the coordinate index holds for its square. Every
  object in the coordinate index is filed under the key of its own square and is in the
  id index under its own id. Every cell of the grid holds the snapshot of the object
  that the coordinate index holds for that square, and \<open>None\<close> when there is none.
\<close>

definition consistent :: "BoardState \<Rightarrow> bool" where
  "consistent self \<longleftrightarrow>
     grid_ok (board self)
     \<and> distinct (map fst (figure_id_to_piece_map self))
     \<and> (\<forall>fid piece. map_of (figure_id_to_piece_map self) fid = Some piece \<longrightarrow>
           figure_id (objects self piece) = fid
           \<and> in_bounds (row (objects self piece)) (col (objects self piece))
           \<and> coord_to_piece_map self
                (coord_key (row (objects self piece)) (col (objects self piece))) = Some piece)
     \<and> (\<forall>k piece. coord_to_piece_map self k = Some piece \<longrightarrow>
           k = coord_key (row (objects self piece)) (col (objects self piece))
           \<and> map_of (figure_id_to_piece_map self) (figure_id (objects self piece)) = Some piece)
     \<and> (\<forall>r c. in_bounds r c \<longrightarrow>
           board self ! nat r ! nat c
             = map_option (objects self) (coord_to_piece_map self (coord_key r c)))"

text \<open>The example position after a resignation.\<close>

definition example_resigned :: BoardState where
  "example_resigned = example_board\<lparr>game_status := RESIGNED\<rparr>"

section \<open>websocket\_manager.py\<close>

text \<open>
  A \<open>WebSocket\<close> object is known by its identity. \<open>active_connections\<close> is the
  module's dictionary from room ids to sets of connections. Of \<open>_pubsub_listeners\<close>
  the model keeps the set of room ids that have an entry: the tasks themselves only
  forward messages. The coroutines are run one at a time, each to its end.
\<close>

type_synonym websocket = nat

record WebSocketManager =
  active_connections :: "uuid \<rightharpoonup> websocket set"
  pubsub_listeners :: "uuid set"

text \<open>
  \<open>connect\<close>: \<open>active_connections.setdefault(room_id, set()).add(websocket)\<close>, then
  a listener is started unless a running one is registered.
\<close>

definition connect :: "WebSocketManager \<Rightarrow> websocket \<Rightarrow> uuid \<Rightarrow> WebSocketManager" where
  "connect m ws room_id =
     m\<lparr>active_connections := (active_connections m)
          (room_id \<mapsto> insert ws (case active_connections m room_id of
                                     None \<Rightarrow> {} | Some conns \<Rightarrow> conns)),
       pubsub_listeners := insert room_id (pubsub_listeners m)\<rparr>"

text \<open>
  \<open>disconnect\<close>. \<open>set.remove\<close> raises KeyError when the element is missing, before
  anything has been changed; the \<open>else\<close> branch only prints.
\<close>

definition disconnect :: "WebSocketManager \<Rightarrow> websocket \<Rightarrow> uuid \<Rightarrow> error + WebSocketManager" where
  "disconnect m ws room_id =
     (case active_connections m room_id of
        None \<Rightarrow> Inr m
      | Some conns \<Rightarrow>
          if ws \<notin> conns then Inl KeyError
          else if conns - {ws} = {}
          then Inr (m\<lparr>active_connections := (active_connections m)(room_id := None),
                      pubsub_listeners := pubsub_listeners m - {room_id}\<rparr>)
          else Inr (m\<lparr>active_connections := (active_connections m)(room_id \<mapsto> conns - {ws})\<rparr>))"

text \<open>
  \<open>broadcast\<close>. \<open>fails ws\<close> says that \<open>send_json\<close> raises on connection \<open>ws\<close>;
  both \<open>except\<close> clauses put the connection on the list \<open>closed_websockets\<close>, whose
  members are then removed from the room's set. When the set is left empty the listener
  is cancelled, and the room's entry stays in \<open>active_connections\<close>.
\<close>

definition broadcast :: "WebSocketManager \<Rightarrow> uuid \<Rightarrow> (websocket \<Rightarrow> bool) \<Rightarrow> WebSocketManager" where
  "broadcast m room_id fails =
     (case active_connections m room_id of
        None \<Rightarrow> m
      | Some conns \<Rightarrow>
          (let remaining = conns - Set.filter fails conns
           in m\<lparr>active_connections := (active_connections m)(room_id \<mapsto> remaining),
                pubsub_listeners :=
                  (if remaining = {} then pubsub_listeners m - {room_id}
                   else pubsub_listeners m)\<rparr>))"

text \<open>A manager with no connection, and the room and connections of the examples.\<close>

definition no_connections :: WebSocketManager where
  "no_connections = \<lparr>active_connections = Map.empty, pubsub_listeners = {}\<rparr>"




section \<open>config.py\<close>



section \<open>Properties of \<open>move_piece\<close>\<close>

lemma error_tagged_prefix: "error_tagged (''Error:'' @ rest)"
  unfolding error_tagged_def by (rule prefix_imp_sublist) simp

lemma msgs_tagged:
  "error_tagged (msg_not_found fid)"
  "error_tagged (msg_not_registered pid)"
  "error_tagged (msg_wrong_turn cur actual)"
  "error_tagged (msg_wrong_color actual pc)"
  "error_tagged (msg_invalid_coords r c fid)"
  "error_tagged (msg_own_piece r c target)"
  using error_tagged_prefix
  by (simp_all add: msg_not_found_def msg_not_registered_def msg_wrong_turn_def
      msg_wrong_color_def msg_invalid_coords_def msg_own_piece_def)

lemma msgs_distinct:
  "msg_not_found fid \<noteq> msg_not_registered pid'"
  "msg_not_found fid \<noteq> msg_wrong_turn cur' actual'"
  "actual' \<in> {''white'', ''black''} \<Longrightarrow> msg_not_found fid \<noteq> msg_wrong_color actual' pc'"
  "msg_not_found fid \<noteq> msg_invalid_coords r' c' fid'"
  "msg_not_found fid \<noteq> msg_own_piece r' c' target'"
  "msg_not_registered pid \<noteq> msg_wrong_turn cur' actual'"
  "actual' \<in> {''white'', ''black''} \<Longrightarrow> msg_not_registered pid \<noteq> msg_wrong_color actual' pc'"
  "msg_not_registered pid \<noteq> msg_invalid_coords r' c' fid'"
  "msg_not_registered pid \<noteq> msg_own_piece r' c' target'"
  "actual' \<in> {''white'', ''black''} \<Longrightarrow> msg_wrong_turn cur actual \<noteq> msg_wrong_color actual' pc'"
  "msg_wrong_turn cur actual \<noteq> msg_invalid_coords r' c' fid'"
  "msg_wrong_turn cur actual \<noteq> msg_own_piece r' c' target'"
  "actual \<in> {''white'', ''black''} \<Longrightarrow> msg_wrong_color actual pc \<noteq> msg_invalid_coords r' c' fid'"
  "actual \<in> {''white'', ''black''} \<Longrightarrow> msg_wrong_color actual pc \<noteq> msg_own_piece r' c' target'"
  "msg_invalid_coords r c fid \<noteq> msg_own_piece r' c' target'"
  by (auto simp add: msg_not_found_def msg_not_registered_def msg_wrong_turn_def
      msg_wrong_color_def msg_invalid_coords_def msg_own_piece_def)

lemma actual_player_color_cases:
  "actual_player_color self pid = Some actual \<Longrightarrow> actual \<in> {''white'', ''black''}"
  by (auto simp: actual_player_color_def split: if_splits)

lemma perform_move_status:
  "perform_move (self\<lparr>game_status := s\<rparr>) piece r0 c0 r c now
     = map_sum id (game_status_update (\<lambda>_. s)) (perform_move self piece r0 c0 r c now)"
  by (simp add: perform_move_def Let_def split: sum.splits)

lemma remove_piece_status:
  "remove_piece_from_board (self\<lparr>game_status := s\<rparr>) piece
     = map_sum id (game_status_update (\<lambda>_. s)) (remove_piece_from_board self piece)"
  by (simp add: remove_piece_from_board_def split: sum.splits)

lemma actual_player_color_status:
  "actual_player_color (self\<lparr>game_status := s\<rparr>) pid = actual_player_color self pid"
  by (simp add: actual_player_color_def players_get_def)

lemma get_piece_at_status:
  "get_piece_at (self\<lparr>game_status := s\<rparr>) r c = get_piece_at self r c"
  by (simp add: get_piece_at_def)

lemma remove_piece_objects:
  "remove_piece_from_board self piece = Inr s1 \<Longrightarrow> objects s1 = objects self"
  by (auto simp add: remove_piece_from_board_def split: sum.splits)

lemma move_piece_status:
  "move_piece (self\<lparr>game_status := s\<rparr>) fid r c pid now
     = map_sum id (game_status_update (\<lambda>_. s)) (move_piece self fid r c pid now)"
proof (cases "map_of (figure_id_to_piece_map self) fid")
  case None
  then show ?thesis by (simp add: move_piece_def log_error_def)
next
  case (Some piece)
  show ?thesis
  proof (cases "get_piece_at self r c")
    case None
    with Some show ?thesis
      by (auto simp add: move_piece_def log_error_def actual_player_color_status
          get_piece_at_status perform_move_status split: option.splits)
  next
    case target: (Some target_piece)
    show ?thesis
    proof (cases "remove_piece_from_board self target_piece")
      case (Inl e)
      with Some target show ?thesis
        by (auto simp add: move_piece_def log_error_def actual_player_color_status
            get_piece_at_status remove_piece_status split: option.splits)
    next
      case (Inr s1)
      have "perform_move
              (s1\<lparr>game_status := s, game_log := game_log s1 @ [m]\<rparr>) piece r0 c0 r c now
            = map_sum id (game_status_update (\<lambda>_. s))
                (perform_move (s1\<lparr>game_log := game_log s1 @ [m]\<rparr>) piece r0 c0 r c now)"
        for m r0 c0
        by (simp add: perform_move_def Let_def split: sum.splits)
      with Some target Inr show ?thesis
        by (auto simp add: move_piece_def log_error_def actual_player_color_status
            get_piece_at_status remove_piece_status split: option.splits)
    qed
  qed
qed


lemma str_int_small [simp]:
  "str_int 0 = ''0''" "str_int 1 = ''1''" "str_int 2 = ''2''" "str_int 3 = ''3''"
  "str_int 4 = ''4''" "str_int 5 = ''5''" "str_int 6 = ''6''" "str_int 7 = ''7''"
  by code_simp+



lemma move_piece_not_found:
  "map_of (figure_id_to_piece_map self) fid = None \<Longrightarrow>
   move_piece self fid new_row new_col pid now = Inr (log_error self (msg_not_found fid))"
  by (simp add: move_piece_def)

lemma move_piece_not_registered:
  "map_of (figure_id_to_piece_map self) fid = Some piece \<Longrightarrow>
   actual_player_color self pid = None \<Longrightarrow>
   move_piece self fid new_row new_col pid now = Inr (log_error self (msg_not_registered pid))"
  by (simp add: move_piece_def)

lemma move_piece_wrong_turn:
  "map_of (figure_id_to_piece_map self) fid = Some piece \<Longrightarrow>
   actual_player_color self pid = Some actual \<Longrightarrow>
   actual \<noteq> current_player self \<Longrightarrow>
   move_piece self fid new_row new_col pid now
     = Inr (log_error self (msg_wrong_turn (current_player self) actual))"
  by (simp add: move_piece_def)

lemma move_piece_wrong_color:
  "map_of (figure_id_to_piece_map self) fid = Some piece \<Longrightarrow>
   actual_player_color self pid = Some actual \<Longrightarrow>
   actual = current_player self \<Longrightarrow>
   color (objects self piece) \<noteq> actual \<Longrightarrow>
   move_piece self fid new_row new_col pid now
     = Inr (log_error self (msg_wrong_color actual (color (objects self piece))))"
  by (simp add: move_piece_def)

lemma move_piece_out_of_bounds:
  "map_of (figure_id_to_piece_map self) fid = Some piece \<Longrightarrow>
   actual_player_color self pid = Some actual \<Longrightarrow>
   actual = current_player self \<Longrightarrow>
   color (objects self piece) = actual \<Longrightarrow>
   fails_bounds new_row new_col \<Longrightarrow>
   move_piece self fid new_row new_col pid now
     = Inr (log_error self
              (msg_invalid_coords new_row new_col (figure_id (objects self piece))))"
  by (simp add: move_piece_def fails_bounds_def)

lemma move_piece_own_piece:
  "map_of (figure_id_to_piece_map self) fid = Some piece \<Longrightarrow>
   actual_player_color self pid = Some actual \<Longrightarrow>
   actual = current_player self \<Longrightarrow>
   color (objects self piece) = actual \<Longrightarrow>
   \<not> fails_bounds new_row new_col \<Longrightarrow>
   get_piece_at self new_row new_col = Some target \<Longrightarrow>
   color (objects self target) = color (objects self piece) \<Longrightarrow>
   move_piece self fid new_row new_col pid now
     = Inr (log_error self (msg_own_piece new_row new_col (objects self target)))"
  by (simp add: move_piece_def fails_bounds_def)

lemma move_piece_free_square:
  "map_of (figure_id_to_piece_map self) fid = Some piece \<Longrightarrow>
   actual_player_color self pid = Some actual \<Longrightarrow>
   actual = current_player self \<Longrightarrow>
   color (objects self piece) = actual \<Longrightarrow>
   \<not> fails_bounds new_row new_col \<Longrightarrow>
   get_piece_at self new_row new_col = None \<Longrightarrow>
   move_piece self fid new_row new_col pid now
     = perform_move self piece (row (objects self piece)) (col (objects self piece))
         new_row new_col now"
  by (simp add: move_piece_def fails_bounds_def)

lemma move_piece_capture:
  "map_of (figure_id_to_piece_map self) fid = Some piece \<Longrightarrow>
   actual_player_color self pid = Some actual \<Longrightarrow>
   actual = current_player self \<Longrightarrow>
   color (objects self piece) = actual \<Longrightarrow>
   \<not> fails_bounds new_row new_col \<Longrightarrow>
   get_piece_at self new_row new_col = Some target \<Longrightarrow>
   color (objects self target) \<noteq> color (objects self piece) \<Longrightarrow>
   move_piece self fid new_row new_col pid now
     = (case remove_piece_from_board self target of
          Inl e \<Rightarrow> Inl e
        | Inr s1 \<Rightarrow>
            perform_move
              (s1\<lparr>game_log := game_log s1 @
                    [msg_capture (objects s1 piece) (objects s1 target) new_row new_col]\<rparr>)
              piece (row (objects self piece)) (col (objects self piece)) new_row new_col now)"
  by (simp add: move_piece_def fails_bounds_def)

text \<open>The outcome of a rejected request, by the first check that fails.\<close>

lemma rejected_cases:
  assumes "fails_piece_exists self fid \<or> fails_registered self pid \<or> fails_turn self pid
           \<or> fails_own_color self fid pid \<or> fails_bounds new_row new_col
           \<or> fails_occupancy self fid new_row new_col"
  shows "move_piece self fid new_row new_col pid now = Inr (log_error self (msg_not_found fid))
    \<or> move_piece self fid new_row new_col pid now
         = Inr (log_error self (msg_not_registered pid))
    \<or> (\<exists>actual. move_piece self fid new_row new_col pid now
         = Inr (log_error self (msg_wrong_turn (current_player self) actual)))
    \<or> (\<exists>actual pc. move_piece self fid new_row new_col pid now
         = Inr (log_error self (msg_wrong_color actual pc)))
    \<or> (\<exists>f. move_piece self fid new_row new_col pid now
         = Inr (log_error self (msg_invalid_coords new_row new_col f)))
    \<or> (\<exists>t. move_piece self fid new_row new_col pid now
         = Inr (log_error self (msg_own_piece new_row new_col t)))"
proof (cases "map_of (figure_id_to_piece_map self) fid")
  case None
  then show ?thesis using move_piece_not_found by blast
next
  case piece: (Some piece)
  show ?thesis
  proof (cases "actual_player_color self pid")
    case None
    with piece show ?thesis using move_piece_not_registered by blast
  next
    case actual: (Some actual)
    show ?thesis
    proof (cases "actual = current_player self")
      case False
      with piece actual show ?thesis using move_piece_wrong_turn by blast
    next
      case turn: True
      show ?thesis
      proof (cases "color (objects self piece) = actual")
        case False
        with piece actual turn show ?thesis using move_piece_wrong_color by blast
      next
        case own: True
        show ?thesis
        proof (cases "fails_bounds new_row new_col")
          case True
          with piece actual turn own show ?thesis using move_piece_out_of_bounds by blast
        next
          case bounds: False
          from assms piece actual turn own bounds
          have "fails_occupancy self fid new_row new_col"
            by (simp add: fails_piece_exists_def fails_registered_def fails_turn_def
                fails_own_color_def)
          with piece obtain target where
            "get_piece_at self new_row new_col = Some target"
            "color (objects self target) = color (objects self piece)"
            by (auto simp: fails_occupancy_def split: option.splits)
          with piece actual turn own bounds show ?thesis
            using move_piece_own_piece by blast
        qed
      qed
    qed
  qed
qed

lemma msgs_pairwise_distinct:
  assumes "a \<in> {''white'', ''black''}"
  shows "msg_not_found f \<notin> {msg_not_registered p, msg_wrong_turn cur a, msg_wrong_color a pc,
                               msg_invalid_coords r c f', msg_own_piece r c t}
        \<and> msg_not_registered p \<notin> {msg_wrong_turn cur a, msg_wrong_color a pc,
                               msg_invalid_coords r c f', msg_own_piece r c t}
        \<and> msg_wrong_turn cur a \<notin> {msg_wrong_color a pc,
                               msg_invalid_coords r c f', msg_own_piece r c t}
        \<and> msg_wrong_color a pc \<notin> {msg_invalid_coords r c f', msg_own_piece r c t}
        \<and> msg_invalid_coords r c f' \<noteq> msg_own_piece r c t"
  using assms msgs_distinct by simp

lemma example_checks:
  "fails_piece_exists example_board ''zz''"
  "\<not> fails_piece_exists example_board ''w1''"
  "\<not> fails_piece_exists example_board ''b1''"
  "fails_registered example_board (UUID ''C'')"
  "\<not> fails_registered example_board (UUID ''A'')"
  "\<not> fails_registered example_board (UUID ''B'')"
  "fails_turn example_board (UUID ''B'')"
  "\<not> fails_turn example_board (UUID ''A'')"
  "fails_own_color example_board ''b1'' (UUID ''A'')"
  "\<not> fails_own_color example_board ''w1'' (UUID ''A'')"
  "fails_bounds 8 0"
  "\<not> fails_bounds 7 0"
  "\<not> fails_bounds 5 1"
  "fails_occupancy example_board ''w1'' 7 0"
  "\<not> fails_occupancy example_board ''w1'' 5 1"
  by (simp_all add: fails_piece_exists_def fails_registered_def fails_turn_def
      fails_own_color_def fails_bounds_def fails_occupancy_def example_board_def
      actual_player_color_def players_get_def get_piece_at_def coord_key_def board_size_def
      initial_piece_def)


text \<open>
  C1. A move request that fails one of the six validation checks raises no exception
  (the result is \<open>Inr\<close>), appends exactly one entry to \<open>game_log\<close>, and that entry
  carries the error tag; every other field of the state, the store of piece objects, both
  indexes and the grid included, is what it was before the call.
\<close>

theorem rejected_move_only_logs:
  assumes "fails_piece_exists self fid \<or> fails_registered self pid \<or> fails_turn self pid
           \<or> fails_own_color self fid pid \<or> fails_bounds new_row new_col
           \<or> fails_occupancy self fid new_row new_col"
  shows "\<exists>entry. move_piece self fid new_row new_col pid now
                   = Inr (self\<lparr>game_log := game_log self @ [entry]\<rparr>)
                 \<and> error_tagged entry"
  using rejected_cases [OF assms, of now] msgs_tagged
  unfolding log_error_def by blast

theorem rejected_move_only_logs_witness:
  "fails_piece_exists example_board ''zz'' \<and>
   (\<exists>entry. move_piece example_board ''zz'' 3 3 (UUID ''A'') 0
              = Inr (example_board\<lparr>game_log := game_log example_board @ [entry]\<rparr>)
            \<and> error_tagged entry)"
proof -
  have h: "fails_piece_exists example_board ''zz''"
    by (simp add: fails_piece_exists_def example_board_def)
  with rejected_move_only_logs [of example_board "''zz''" "UUID ''A''" 3 3 0]
  show ?thesis by blast
qed


text \<open>
  C2. The checks of \<open>move_piece\<close> run in a fixed order: the piece exists, the player is
  registered, it is the player's turn, the piece is the player's own, the destination lies on
  the board (rows and columns 0 to 7), the destination does not hold a piece of the player's
  own colour. The first check that fails decides the log entry, whatever the later checks
  would have said; in particular a destination off the board is reported as such and the
  occupancy of the square is never looked at. The messages of the six checks are pairwise
  different, so an entry of an earlier check is never the message of a later one.
\<close>

theorem validation_order:
  "(fails_piece_exists self fid \<longrightarrow>
      move_piece self fid new_row new_col pid now = Inr (log_error self (msg_not_found fid)))
   \<and> (\<not> fails_piece_exists self fid \<and> fails_registered self pid \<longrightarrow>
      move_piece self fid new_row new_col pid now = Inr (log_error self (msg_not_registered pid)))
   \<and> (\<not> fails_piece_exists self fid \<and> \<not> fails_registered self pid \<and> fails_turn self pid \<longrightarrow>
      (\<exists>actual. actual_player_color self pid = Some actual \<and>
         move_piece self fid new_row new_col pid now
           = Inr (log_error self (msg_wrong_turn (current_player self) actual))))
   \<and> (\<not> fails_piece_exists self fid \<and> \<not> fails_registered self pid \<and> \<not> fails_turn self pid
        \<and> fails_own_color self fid pid \<longrightarrow>
      (\<exists>piece actual. map_of (figure_id_to_piece_map self) fid = Some piece \<and>
         actual_player_color self pid = Some actual \<and>
         move_piece self fid new_row new_col pid now
           = Inr (log_error self (msg_wrong_color actual (color (objects self piece))))))
   \<and> (\<not> fails_piece_exists self fid \<and> \<not> fails_registered self pid \<and> \<not> fails_turn self pid
        \<and> \<not> fails_own_color self fid pid \<and> fails_bounds new_row new_col \<longrightarrow>
      (\<exists>piece. map_of (figure_id_to_piece_map self) fid = Some piece \<and>
         move_piece self fid new_row new_col pid now
           = Inr (log_error self
                    (msg_invalid_coords new_row new_col (figure_id (objects self piece))))))
   \<and> (\<not> fails_piece_exists self fid \<and> \<not> fails_registered self pid \<and> \<not> fails_turn self pid
        \<and> \<not> fails_own_color self fid pid \<and> \<not> fails_bounds new_row new_col
        \<and> fails_occupancy self fid new_row new_col \<longrightarrow>
      (\<exists>target. get_piece_at self new_row new_col = Some target \<and>
         move_piece self fid new_row new_col pid now
           = Inr (log_error self (msg_own_piece new_row new_col (objects self target)))))
   \<and> (\<forall>f p cur a pc r c f' t.
        a \<in> {''white'', ''black''} \<longrightarrow>
          msg_not_found f \<notin> {msg_not_registered p, msg_wrong_turn cur a, msg_wrong_color a pc,
                               msg_invalid_coords r c f', msg_own_piece r c t}
        \<and> msg_not_registered p \<notin> {msg_wrong_turn cur a, msg_wrong_color a pc,
                               msg_invalid_coords r c f', msg_own_piece r c t}
        \<and> msg_wrong_turn cur a \<notin> {msg_wrong_color a pc,
                               msg_invalid_coords r c f', msg_own_piece r c t}
        \<and> msg_wrong_color a pc \<notin> {msg_invalid_coords r c f', msg_own_piece r c t}
        \<and> msg_invalid_coords r c f' \<noteq> msg_own_piece r c t)"
  (is "?C1 \<and> ?C2 \<and> ?C3 \<and> ?C4 \<and> ?C5 \<and> ?C6 \<and> ?C7")
proof -
  have c1: "?C1"
  proof
    assume "fails_piece_exists self fid"
    then show "move_piece self fid new_row new_col pid now
                 = Inr (log_error self (msg_not_found fid))"
      by (simp add: fails_piece_exists_def move_piece_not_found)
  qed
  have c2: "?C2"
  proof
    assume "\<not> fails_piece_exists self fid \<and> fails_registered self pid"
    then show "move_piece self fid new_row new_col pid now
                 = Inr (log_error self (msg_not_registered pid))"
      by (auto simp: fails_piece_exists_def fails_registered_def
          intro: move_piece_not_registered)
  qed
  have c3: "?C3"
  proof
    assume "\<not> fails_piece_exists self fid \<and> \<not> fails_registered self pid \<and> fails_turn self pid"
    then obtain piece actual where
      "map_of (figure_id_to_piece_map self) fid = Some piece"
      "actual_player_color self pid = Some actual" "actual \<noteq> current_player self"
      by (auto simp: fails_piece_exists_def fails_registered_def fails_turn_def
          split: option.splits)
    then show "\<exists>actual. actual_player_color self pid = Some actual \<and>
           move_piece self fid new_row new_col pid now
             = Inr (log_error self (msg_wrong_turn (current_player self) actual))"
      using move_piece_wrong_turn by blast
  qed
  have c4: "?C4"
  proof
    assume "\<not> fails_piece_exists self fid \<and> \<not> fails_registered self pid \<and> \<not> fails_turn self pid
          \<and> fails_own_color self fid pid"
    then obtain piece actual where
      "map_of (figure_id_to_piece_map self) fid = Some piece"
      "actual_player_color self pid = Some actual" "actual = current_player self"
      "color (objects self piece) \<noteq> actual"
      by (auto simp: fails_piece_exists_def fails_registered_def fails_turn_def
          fails_own_color_def split: option.splits)
    then show "\<exists>piece actual. map_of (figure_id_to_piece_map self) fid = Some piece \<and>
           actual_player_color self pid = Some actual \<and>
           move_piece self fid new_row new_col pid now
             = Inr (log_error self (msg_wrong_color actual (color (objects self piece))))"
      using move_piece_wrong_color by blast
  qed
  have c5: "?C5"
  proof
    assume "\<not> fails_piece_exists self fid \<and> \<not> fails_registered self pid \<and> \<not> fails_turn self pid
          \<and> \<not> fails_own_color self fid pid \<and> fails_bounds new_row new_col"
    then obtain piece actual where
      "map_of (figure_id_to_piece_map self) fid = Some piece"
      "actual_player_color self pid = Some actual" "actual = current_player self"
      "color (objects self piece) = actual" "fails_bounds new_row new_col"
      by (auto simp: fails_piece_exists_def fails_registered_def fails_turn_def
          fails_own_color_def split: option.splits)
    then show "\<exists>piece. map_of (figure_id_to_piece_map self) fid = Some piece \<and>
           move_piece self fid new_row new_col pid now
             = Inr (log_error self
                      (msg_invalid_coords new_row new_col (figure_id (objects self piece))))"
      using move_piece_out_of_bounds by blast
  qed
  have c6: "?C6"
  proof
    assume "\<not> fails_piece_exists self fid \<and> \<not> fails_registered self pid \<and> \<not> fails_turn self pid
          \<and> \<not> fails_own_color self fid pid \<and> \<not> fails_bounds new_row new_col
          \<and> fails_occupancy self fid new_row new_col"
    then obtain piece actual target where
      "map_of (figure_id_to_piece_map self) fid = Some piece"
      "actual_player_color self pid = Some actual" "actual = current_player self"
      "color (objects self piece) = actual" "\<not> fails_bounds new_row new_col"
      "get_piece_at self new_row new_col = Some target"
      "color (objects self target) = color (objects self piece)"
      by (auto simp: fails_piece_exists_def fails_registered_def fails_turn_def
          fails_own_color_def fails_occupancy_def split: option.splits)
    then show "\<exists>target. get_piece_at self new_row new_col = Some target \<and>
           move_piece self fid new_row new_col pid now
             = Inr (log_error self (msg_own_piece new_row new_col (objects self target)))"
      using move_piece_own_piece by blast
  qed
  have c7: "?C7"
  proof (intro allI impI)
    fix f p cur a pc r c f' t
    assume "a \<in> {''white'', ''black''}"
    then show "msg_not_found f \<notin> {msg_not_registered p, msg_wrong_turn cur a, msg_wrong_color a pc,
                                 msg_invalid_coords r c f', msg_own_piece r c t}
          \<and> msg_not_registered p \<notin> {msg_wrong_turn cur a, msg_wrong_color a pc,
                                 msg_invalid_coords r c f', msg_own_piece r c t}
          \<and> msg_wrong_turn cur a \<notin> {msg_wrong_color a pc,
                                 msg_invalid_coords r c f', msg_own_piece r c t}
          \<and> msg_wrong_color a pc \<notin> {msg_invalid_coords r c f', msg_own_piece r c t}
          \<and> msg_invalid_coords r c f' \<noteq> msg_own_piece r c t"
      by (rule msgs_pairwise_distinct)
  qed
  show ?thesis
    by (intro conjI) (rule c1, rule c2, rule c3, rule c4, rule c5, rule c6, rule c7)
qed

theorem validation_order_witness:
  "fails_piece_exists example_board ''zz''
   \<and> move_piece example_board ''zz'' 7 0 (UUID ''B'') 0
       = Inr (log_error example_board (msg_not_found ''zz''))
   \<and> \<not> fails_piece_exists example_board ''w1'' \<and> \<not> fails_registered example_board (UUID ''A'')
   \<and> \<not> fails_turn example_board (UUID ''A'') \<and> \<not> fails_own_color example_board ''w1'' (UUID ''A'')
   \<and> fails_bounds 8 0
   \<and> (\<exists>piece. map_of (figure_id_to_piece_map example_board) ''w1'' = Some piece \<and>
         move_piece example_board ''w1'' 8 0 (UUID ''A'') 0
           = Inr (log_error example_board
                    (msg_invalid_coords 8 0 (figure_id (objects example_board piece)))))
   \<and> \<not> fails_bounds 7 0 \<and> fails_occupancy example_board ''w1'' 7 0
   \<and> (\<exists>target. get_piece_at example_board 7 0 = Some target \<and>
         move_piece example_board ''w1'' 7 0 (UUID ''A'') 0
           = Inr (log_error example_board (msg_own_piece 7 0 (objects example_board target))))"
proof -
  note c2 = conjunct2
  have h1: "fails_piece_exists example_board ''zz''"
    by (fact example_checks)
  have h5: "\<not> fails_piece_exists example_board ''w1'' \<and> \<not> fails_registered example_board (UUID ''A'')
        \<and> \<not> fails_turn example_board (UUID ''A'') \<and> \<not> fails_own_color example_board ''w1'' (UUID ''A'')
        \<and> fails_bounds 8 0"
    by (intro conjI) (fact example_checks)+
  have h6: "\<not> fails_piece_exists example_board ''w1'' \<and> \<not> fails_registered example_board (UUID ''A'')
        \<and> \<not> fails_turn example_board (UUID ''A'') \<and> \<not> fails_own_color example_board ''w1'' (UUID ''A'')
        \<and> \<not> fails_bounds 7 0 \<and> fails_occupancy example_board ''w1'' 7 0"
    by (intro conjI) (fact example_checks)+
  note r1 = validation_order [where self = example_board and fid = "''zz''" and new_row = 7
      and new_col = 0 and pid = "UUID ''B''" and now = 0, THEN conjunct1, THEN mp, OF h1]
  note r5 = validation_order [where self = example_board and fid = "''w1''" and new_row = 8
      and new_col = 0 and pid = "UUID ''A''" and now = 0,
      THEN c2, THEN c2, THEN c2, THEN c2, THEN conjunct1, THEN mp, OF h5]
  note r6 = validation_order [where self = example_board and fid = "''w1''" and new_row = 7
      and new_col = 0 and pid = "UUID ''A''" and now = 0,
      THEN c2, THEN c2, THEN c2, THEN c2, THEN c2, THEN conjunct1, THEN mp, OF h6]
  show ?thesis
    by (intro conjI) (fact example_checks r1 r5 r6)+
qed

section \<open>The keys of the coordinate index\<close>

lemma of_char_digit: "d < 10 \<Longrightarrow> of_char (digit_char d) = (48 + d :: nat)"
  by (simp add: digit_char_def)

lemma val_digits_str_nat: "val_digits (str_nat n) = n"
proof (induction n rule: str_nat.induct)
  case (1 n)
  show ?case
  proof (cases "n < 10")
    case True
    then show ?thesis
      by (simp add: str_nat.simps [of n] val_digits_def of_char_digit)
  next
    case False
    with 1 show ?thesis
      by (simp add: str_nat.simps [of n] val_digits_def of_char_digit)
  qed
qed

lemma str_nat_inj: "str_nat m = str_nat n \<Longrightarrow> m = n"
  by (metis val_digits_str_nat)

lemma digit_char_not_sep:
  assumes "d < 10"
  shows "digit_char d \<noteq> CHR ''_''" and "digit_char d \<noteq> CHR ''-''"
proof -
  have "of_char (digit_char d) \<noteq> (of_char CHR ''_'' :: nat)"
    using assms by (simp add: of_char_digit)
  then show "digit_char d \<noteq> CHR ''_''" by auto
  have "of_char (digit_char d) \<noteq> (of_char CHR ''-'' :: nat)"
    using assms by (simp add: of_char_digit)
  then show "digit_char d \<noteq> CHR ''-''" by auto
qed

lemma str_nat_chars: "ch \<in> set (str_nat n) \<Longrightarrow> \<exists>d<10. ch = digit_char d"
proof (induction n rule: str_nat.induct)
  case (1 n)
  then show ?case
    by (cases "n < 10") (auto simp add: str_nat.simps [of n] intro: exI [of _ "n mod 10"])
qed

lemma str_nat_not_Nil: "str_nat n \<noteq> []"
  by (subst str_nat.simps) simp

lemma str_nat_no_sep: "CHR ''_'' \<notin> set (str_nat n)"
proof
  assume "CHR ''_'' \<in> set (str_nat n)"
  then obtain d where d: "d < 10" "CHR ''_'' = digit_char d"
    using str_nat_chars by meson
  with digit_char_not_sep(1) [OF d(1)] show False by simp
qed

lemma str_nat_no_minus: "CHR ''-'' \<notin> set (str_nat n)"
proof
  assume "CHR ''-'' \<in> set (str_nat n)"
  then obtain d where d: "d < 10" "CHR ''-'' = digit_char d"
    using str_nat_chars by meson
  with digit_char_not_sep(2) [OF d(1)] show False by simp
qed

lemma str_nat_hd: "hd (str_nat n) \<noteq> CHR ''-''"
  by (metis str_nat_no_minus str_nat_not_Nil hd_in_set)

lemma str_int_inj: "str_int i = str_int j \<Longrightarrow> i = j"
proof -
  assume eq: "str_int i = str_int j"
  consider "i < 0" "j < 0" | "i < 0" "\<not> j < 0" | "\<not> i < 0" "j < 0" | "\<not> i < 0" "\<not> j < 0"
    by blast
  then show ?thesis
  proof cases
    case 1
    with eq have "str_nat (nat (- i)) = str_nat (nat (- j))" by (simp add: str_int_def)
    then have "nat (- i) = nat (- j)" by (rule str_nat_inj)
    with 1 show ?thesis by simp
  next
    case 2
    with eq have "CHR ''-'' # str_nat (nat (- i)) = str_nat (nat j)" by (simp add: str_int_def)
    then have "hd (str_nat (nat j)) = CHR ''-''" by (metis list.sel(1))
    with str_nat_hd show ?thesis by blast
  next
    case 3
    with eq have "str_nat (nat i) = CHR ''-'' # str_nat (nat (- j))" by (simp add: str_int_def)
    then have "hd (str_nat (nat i)) = CHR ''-''" by (metis list.sel(1))
    with str_nat_hd show ?thesis by blast
  next
    case 4
    with eq have "str_nat (nat i) = str_nat (nat j)" by (simp add: str_int_def)
    then have "nat i = nat j" by (rule str_nat_inj)
    with 4 show ?thesis by simp
  qed
qed

lemma str_int_no_sep: "CHR ''_'' \<notin> set (str_int i)"
  using str_nat_no_sep by (simp add: str_int_def)

lemma split_at_sep:
  "c \<notin> set xs \<Longrightarrow> c \<notin> set xs' \<Longrightarrow> xs @ c # ys = xs' @ c # ys' \<Longrightarrow> xs = xs' \<and> ys = ys'"
proof (induction xs arbitrary: xs')
  case Nil
  then show ?case by (cases xs') auto
next
  case (Cons a xs)
  then show ?case by (cases xs') auto
qed

lemma coord_key_eq [simp]: "coord_key r c = coord_key r' c' \<longleftrightarrow> r = r' \<and> c = c'"
proof
  assume "coord_key r c = coord_key r' c'"
  then have "str_int r @ CHR ''_'' # str_int c = str_int r' @ CHR ''_'' # str_int c'"
    by (simp add: coord_key_def)
  then have "str_int r = str_int r' \<and> str_int c = str_int c'"
    by (rule split_at_sep [OF str_int_no_sep str_int_no_sep])
  then show "r = r' \<and> c = c'" using str_int_inj by blast
qed simp

section \<open>The grid\<close>

lemma board_set_in_bounds:
  assumes "grid_ok g" "in_bounds r c"
  shows "board_set g r c v = Inr (g[nat r := (g ! nat r)[nat c := v]])"
proof -
  from assms have r: "py_index (length g) r = Some (nat r)"
    by (simp add: grid_ok_def in_bounds_def py_index_def)
  from assms have "nat r < length g"
    by (simp add: grid_ok_def in_bounds_def)
  with assms have "length (g ! nat r) = nat board_size"
    by (simp add: grid_ok_def)
  with assms have c: "py_index (length (g ! nat r)) c = Some (nat c)"
    by (simp add: in_bounds_def py_index_def)
  from r c show ?thesis
    by (simp add: board_set_def)
qed

lemma grid_ok_update:
  assumes "grid_ok g"
  shows "grid_ok (g[i := (g ! i)[j := v]])"
proof (cases "i < length g")
  case True
  have "length rw = nat board_size" if "rw \<in> set (g[i := (g ! i)[j := v]])" for rw
  proof -
    from that have "rw = (g ! i)[j := v] \<or> rw \<in> set g"
      using set_update_subset_insert by fastforce
    with assms True show ?thesis
      by (auto simp add: grid_ok_def)
  qed
  with assms show ?thesis
    by (simp add: grid_ok_def)
next
  case False
  with assms show ?thesis by (simp add: list_update_beyond)
qed

lemma grid_nth_update:
  assumes "grid_ok g" "in_bounds r c" "in_bounds r' c'"
  shows "g[nat r := (g ! nat r)[nat c := v]] ! nat r' ! nat c'
           = (if r' = r \<and> c' = c then v else g ! nat r' ! nat c')"
proof -
  from assms have len: "nat r < length g" "nat r' < length g"
    by (simp_all add: grid_ok_def in_bounds_def)
  with assms have "length (g ! nat r) = nat board_size"
    by (simp add: grid_ok_def)
  with assms have lc: "nat c < length (g ! nat r)"
    by (simp add: in_bounds_def)
  from assms have eq: "nat r' = nat r \<longleftrightarrow> r' = r" "nat c' = nat c \<longleftrightarrow> c' = c"
    "nat r = nat r' \<longleftrightarrow> r' = r" "nat c = nat c' \<longleftrightarrow> c' = c"
    by (auto simp add: in_bounds_def)
  show ?thesis
  proof (cases "r' = r")
    case True
    with len lc eq show ?thesis
      by (simp add: nth_list_update)
  next
    case False
    with len eq show ?thesis
      by (simp add: nth_list_update)
  qed
qed

section \<open>Accepted moves\<close>

lemma perform_move_in_bounds:
  assumes "grid_ok (board self)" "in_bounds old_row old_col" "in_bounds new_row new_col"
  shows "perform_move self piece old_row old_col new_row new_col now =
     Inr (self\<lparr>board :=
                 ((board self)[nat old_row := (board self ! nat old_row)[nat old_col := None]])
                   [nat new_row :=
                      ((board self)[nat old_row := (board self ! nat old_row)[nat old_col := None]]
                         ! nat new_row)
                        [nat new_col :=
                           Some ((objects self piece)
                                   \<lparr>row := new_row, col := new_col, is_first_move := False,
                                    walk_count := walk_count (objects self piece) + 1\<rparr>)]],
               coord_to_piece_map :=
                 ((coord_to_piece_map self)(coord_key old_row old_col := None))
                   (coord_key new_row new_col \<mapsto> piece),
               objects := (objects self)
                 (piece := (objects self piece)
                             \<lparr>row := new_row, col := new_col, is_first_move := False,
                              walk_count := walk_count (objects self piece) + 1\<rparr>),
               moves_log := moves_log self @
                 [msg_moves_log (current_player self) (name (objects self piece))
                    old_row old_col new_row new_col],
               current_player := (if current_player self = ''white'' then ''black'' else ''white''),
               turn_number := turn_number self + 1,
               last_move_at := Some now,
               game_log := game_log self @
                 [msg_success (name (objects self piece)) (color (objects self piece))
                    old_row old_col new_row new_col
                    (if current_player self = ''white'' then ''black'' else ''white'')]\<rparr>)"
proof -
  note g1 = board_set_in_bounds [OF assms(1) assms(2)]
  have "grid_ok ((board self)[nat old_row := (board self ! nat old_row)[nat old_col := None]])"
    using assms(1) by (rule grid_ok_update)
  note g2 = board_set_in_bounds [OF this assms(3)]
  show ?thesis
    by (simp add: perform_move_def g1 g2 Let_def)
qed

lemma perform_move_effect:
  assumes "grid_ok (board self)" "in_bounds old_row old_col" "in_bounds new_row new_col"
  shows "\<exists>b'. perform_move self piece old_row old_col new_row new_col now = Inr b'
     \<and> game_status b' = game_status self
     \<and> current_player b' = (if current_player self = ''white'' then ''black'' else ''white'')
     \<and> turn_number b' = turn_number self + 1
     \<and> row (objects b' piece) = new_row \<and> col (objects b' piece) = new_col
     \<and> get_piece_at b' new_row new_col = Some piece
     \<and> board b' ! nat new_row ! nat new_col = Some (objects b' piece)
     \<and> ((old_row, old_col) \<noteq> (new_row, new_col) \<longrightarrow>
          get_piece_at b' old_row old_col = None \<and> board b' ! nat old_row ! nat old_col = None)
     \<and> figure_id_to_piece_map b' = figure_id_to_piece_map self
     \<and> last_move_at b' = Some now
     \<and> length (moves_log b') = length (moves_log self) + 1"
proof -
  define moved where "moved = (objects self piece)
      \<lparr>row := new_row, col := new_col, is_first_move := False,
       walk_count := walk_count (objects self piece) + 1\<rparr>"
  define g1 where "g1 = (board self)[nat old_row := (board self ! nat old_row)[nat old_col := None]]"
  define g2 where "g2 = g1[nat new_row := (g1 ! nat new_row)[nat new_col := Some moved]]"
  have ok: "grid_ok g1"
    unfolding g1_def using assms(1) by (rule grid_ok_update)
  have pm: "perform_move self piece old_row old_col new_row new_col now =
     Inr (self\<lparr>board := g2,
               coord_to_piece_map :=
                 ((coord_to_piece_map self)(coord_key old_row old_col := None))
                   (coord_key new_row new_col \<mapsto> piece),
               objects := (objects self)(piece := moved),
               moves_log := moves_log self @
                 [msg_moves_log (current_player self) (name (objects self piece))
                    old_row old_col new_row new_col],
               current_player := (if current_player self = ''white'' then ''black'' else ''white''),
               turn_number := turn_number self + 1,
               last_move_at := Some now,
               game_log := game_log self @
                 [msg_success (name (objects self piece)) (color (objects self piece))
                    old_row old_col new_row new_col
                    (if current_player self = ''white'' then ''black'' else ''white'')]\<rparr>)"
    unfolding g2_def g1_def moved_def by (rule perform_move_in_bounds [OF assms])
  have new_cell: "g2 ! nat new_row ! nat new_col = Some moved"
    unfolding g2_def using grid_nth_update [OF ok assms(3) assms(3)] by simp
  have old_cell: "g2 ! nat old_row ! nat old_col = None"
    if "(old_row, old_col) \<noteq> (new_row, new_col)"
  proof -
    have "g2 ! nat old_row ! nat old_col = g1 ! nat old_row ! nat old_col"
      unfolding g2_def using grid_nth_update [OF ok assms(3) assms(2)] that by auto
    also have "\<dots> = None"
      unfolding g1_def using grid_nth_update [OF assms(1) assms(2) assms(2)] by simp
    finally show ?thesis .
  qed
  have moved_fields: "row moved = new_row" "col moved = new_col"
    by (simp_all add: moved_def)
  show ?thesis
    unfolding pm using new_cell old_cell moved_fields
    by (auto simp add: get_piece_at_def)
qed

lemma remove_piece_in_bounds:
  assumes "grid_ok (board self)" "in_bounds (row (objects self t)) (col (objects self t))"
  shows "remove_piece_from_board self t =
     Inr (self\<lparr>board := (board self)
                 [nat (row (objects self t)) :=
                    (board self ! nat (row (objects self t)))[nat (col (objects self t)) := None]],
               coord_to_piece_map := (coord_to_piece_map self)
                 (coord_key (row (objects self t)) (col (objects self t)) := None),
               figure_id_to_piece_map :=
                 AList.delete (figure_id (objects self t)) (figure_id_to_piece_map self)\<rparr>)"
  by (simp add: remove_piece_from_board_def board_set_in_bounds [OF assms])

lemma passed_checks:
  assumes "\<not> fails_piece_exists self fid" "\<not> fails_registered self pid"
    "\<not> fails_turn self pid" "\<not> fails_own_color self fid pid"
  obtains piece where "map_of (figure_id_to_piece_map self) fid = Some piece"
    "actual_player_color self pid = Some (current_player self)"
    "color (objects self piece) = current_player self"
    "current_player self = ''white'' \<or> current_player self = ''black''"
proof -
  from assms(1) obtain piece where piece: "map_of (figure_id_to_piece_map self) fid = Some piece"
    by (auto simp add: fails_piece_exists_def)
  from assms(2) obtain actual where actual: "actual_player_color self pid = Some actual"
    by (auto simp add: fails_registered_def)
  from assms(3) actual have turn: "actual = current_player self"
    by (simp add: fails_turn_def)
  from assms(4) piece actual have own: "color (objects self piece) = actual"
    by (simp add: fails_own_color_def)
  from actual have "actual = ''white'' \<or> actual = ''black''"
    by (auto simp add: actual_player_color_def split: if_splits)
  with piece actual turn own that show thesis by simp
qed

text \<open>
  C7. \<open>move_piece\<close> never reads \<open>game_status\<close>. Take any state, whatever its status
  (resigned, finished, checkmate, stalemate, draw, ...), whose grid has its 8 x 8 cells and in
  which the piece to move and the piece on the destination, if any, stand on the board. A
  request that passes the six checks is applied: the call returns normally, the piece
  object has the new coordinates, the coordinate index and the grid hold it on the new
  square and no longer on the old one, \<open>current_player\<close> is the other colour,
  \<open>turn_number\<close> is one more, the time of the move is recorded, and the status is
  left as it was. The same request on the same state with any other status \<open>s\<close>, in
  progress included, returns the same state with status \<open>s\<close>.
\<close>

theorem accepted_move_applied_in_any_status:
  assumes "\<not> fails_piece_exists self fid" "\<not> fails_registered self pid"
    "\<not> fails_turn self pid" "\<not> fails_own_color self fid pid"
    "\<not> fails_bounds new_row new_col" "\<not> fails_occupancy self fid new_row new_col"
    and grid: "grid_ok (board self)"
    and old: "\<forall>piece. map_of (figure_id_to_piece_map self) fid = Some piece \<longrightarrow>
               in_bounds (row (objects self piece)) (col (objects self piece))"
    and tgt: "\<forall>target. get_piece_at self new_row new_col = Some target \<longrightarrow>
               in_bounds (row (objects self target)) (col (objects self target))"
  shows "\<exists>piece b'. map_of (figure_id_to_piece_map self) fid = Some piece
     \<and> move_piece self fid new_row new_col pid now = Inr b'
     \<and> game_status b' = game_status self
     \<and> current_player b' = (if current_player self = ''white'' then ''black'' else ''white'')
     \<and> current_player b' \<noteq> current_player self
     \<and> turn_number b' = turn_number self + 1
     \<and> last_move_at b' = Some now
     \<and> row (objects b' piece) = new_row \<and> col (objects b' piece) = new_col
     \<and> get_piece_at b' new_row new_col = Some piece
     \<and> board b' ! nat new_row ! nat new_col = Some (objects b' piece)
     \<and> ((row (objects self piece), col (objects self piece)) \<noteq> (new_row, new_col) \<longrightarrow>
          get_piece_at b' (row (objects self piece)) (col (objects self piece)) = None
          \<and> board b' ! nat (row (objects self piece)) ! nat (col (objects self piece)) = None)
     \<and> (\<forall>s. move_piece (self\<lparr>game_status := s\<rparr>) fid new_row new_col pid now
              = Inr (b'\<lparr>game_status := s\<rparr>))"
proof -
  from assms(1-4) obtain piece where piece: "map_of (figure_id_to_piece_map self) fid = Some piece"
    and actual: "actual_player_color self pid = Some (current_player self)"
    and own: "color (objects self piece) = current_player self"
    and colours: "current_player self = ''white'' \<or> current_player self = ''black''"
    by (rule passed_checks)
  from assms(5) have newb: "in_bounds new_row new_col"
    by (simp add: fails_bounds_def in_bounds_def)
  from old piece have oldb: "in_bounds (row (objects self piece)) (col (objects self piece))"
    by simp
  have "\<exists>b'. move_piece self fid new_row new_col pid now = Inr b'
     \<and> game_status b' = game_status self
     \<and> current_player b' = (if current_player self = ''white'' then ''black'' else ''white'')
     \<and> turn_number b' = turn_number self + 1
     \<and> last_move_at b' = Some now
     \<and> row (objects b' piece) = new_row \<and> col (objects b' piece) = new_col
     \<and> get_piece_at b' new_row new_col = Some piece
     \<and> board b' ! nat new_row ! nat new_col = Some (objects b' piece)
     \<and> ((row (objects self piece), col (objects self piece)) \<noteq> (new_row, new_col) \<longrightarrow>
          get_piece_at b' (row (objects self piece)) (col (objects self piece)) = None
          \<and> board b' ! nat (row (objects self piece)) ! nat (col (objects self piece)) = None)"
  proof (cases "get_piece_at self new_row new_col")
    case None
    have "move_piece self fid new_row new_col pid now
        = perform_move self piece (row (objects self piece)) (col (objects self piece))
            new_row new_col now"
      using piece actual _ own assms(5) None by (rule move_piece_free_square) simp
    with perform_move_effect [OF grid oldb newb, of piece now] show ?thesis
      by auto
  next
    case (Some target)
    with assms(6) piece have differ: "color (objects self target) \<noteq> color (objects self piece)"
      by (simp add: fails_occupancy_def)
    from tgt Some have tb: "in_bounds (row (objects self target)) (col (objects self target))"
      by simp
    define s1 where "s1 = self\<lparr>board := (board self)
                 [nat (row (objects self target)) :=
                    (board self ! nat (row (objects self target)))
                      [nat (col (objects self target)) := None]],
               coord_to_piece_map := (coord_to_piece_map self)
                 (coord_key (row (objects self target)) (col (objects self target)) := None),
               figure_id_to_piece_map :=
                 AList.delete (figure_id (objects self target)) (figure_id_to_piece_map self)\<rparr>"
    define s2 where "s2 = s1\<lparr>game_log := game_log s1 @
                    [msg_capture (objects s1 piece) (objects s1 target) new_row new_col]\<rparr>"
    have rm: "remove_piece_from_board self target = Inr s1"
      unfolding s1_def by (rule remove_piece_in_bounds [OF grid tb])
    have "move_piece self fid new_row new_col pid now
        = (case remove_piece_from_board self target of
          Inl e \<Rightarrow> Inl e
        | Inr s1 \<Rightarrow>
            perform_move
              (s1\<lparr>game_log := game_log s1 @
                    [msg_capture (objects s1 piece) (objects s1 target) new_row new_col]\<rparr>)
              piece (row (objects self piece)) (col (objects self piece)) new_row new_col now)"
      using piece actual _ own assms(5) Some differ by (rule move_piece_capture) simp
    then have mp: "move_piece self fid new_row new_col pid now
        = perform_move s2 piece (row (objects self piece)) (col (objects self piece))
            new_row new_col now"
      by (simp add: rm s2_def)
    have g2: "grid_ok (board s2)"
      using grid_ok_update [OF grid] by (simp add: s2_def s1_def)
    have same: "game_status s2 = game_status self" "current_player s2 = current_player self"
      "turn_number s2 = turn_number self"
      by (simp_all add: s2_def s1_def)
    from perform_move_effect [OF g2 oldb newb, of piece now] mp same show ?thesis
      by auto
  qed
  then obtain b' where b': "move_piece self fid new_row new_col pid now = Inr b'"
     "game_status b' = game_status self"
     "current_player b' = (if current_player self = ''white'' then ''black'' else ''white'')"
     "turn_number b' = turn_number self + 1"
     "last_move_at b' = Some now"
     "row (objects b' piece) = new_row" "col (objects b' piece) = new_col"
     "get_piece_at b' new_row new_col = Some piece"
     "board b' ! nat new_row ! nat new_col = Some (objects b' piece)"
     "(row (objects self piece), col (objects self piece)) \<noteq> (new_row, new_col) \<longrightarrow>
          get_piece_at b' (row (objects self piece)) (col (objects self piece)) = None
          \<and> board b' ! nat (row (objects self piece)) ! nat (col (objects self piece)) = None"
    by blast
  from b'(3) colours have flipped: "current_player b' \<noteq> current_player self"
    by auto
  have status: "move_piece (self\<lparr>game_status := s\<rparr>) fid new_row new_col pid now
      = Inr (b'\<lparr>game_status := s\<rparr>)" for s
    by (simp add: move_piece_status b'(1))
  from piece b' flipped status show ?thesis
    by blast
qed

theorem accepted_move_applied_in_any_status_witness:
  "game_status example_resigned = RESIGNED
   \<and> \<not> fails_piece_exists example_resigned ''w1''
   \<and> \<not> fails_registered example_resigned (UUID ''A'')
   \<and> \<not> fails_turn example_resigned (UUID ''A'')
   \<and> \<not> fails_own_color example_resigned ''w1'' (UUID ''A'')
   \<and> \<not> fails_bounds 5 1
   \<and> \<not> fails_occupancy example_resigned ''w1'' 5 1
   \<and> grid_ok (board example_resigned)
   \<and> (\<exists>b'. move_piece example_resigned ''w1'' 5 1 (UUID ''A'') 0 = Inr b'
        \<and> game_status b' = RESIGNED
        \<and> current_player b' = ''black''
        \<and> turn_number b' = 1
        \<and> row (objects b' 0) = 5 \<and> col (objects b' 0) = 1
        \<and> get_piece_at b' 5 1 = Some 0
        \<and> board b' ! 5 ! 1 = Some (objects b' 0)
        \<and> get_piece_at b' 6 0 = None
        \<and> board b' ! 6 ! 0 = None
        \<and> move_piece (example_resigned\<lparr>game_status := IN_PROGRESS\<rparr>) ''w1'' 5 1 (UUID ''A'') 0
             = Inr (b'\<lparr>game_status := IN_PROGRESS\<rparr>))"
proof -
  have h: "\<not> fails_piece_exists example_resigned ''w1''"
    "\<not> fails_registered example_resigned (UUID ''A'')"
    "\<not> fails_turn example_resigned (UUID ''A'')"
    "\<not> fails_own_color example_resigned ''w1'' (UUID ''A'')"
    "\<not> fails_bounds 5 1"
    "\<not> fails_occupancy example_resigned ''w1'' 5 1"
    by (simp_all add: fails_piece_exists_def fails_registered_def fails_turn_def
      fails_own_color_def fails_bounds_def fails_occupancy_def example_board_def
      example_resigned_def
      actual_player_color_def players_get_def get_piece_at_def coord_key_def board_size_def
      initial_piece_def)
  have st: "game_status example_resigned = RESIGNED" "current_player example_resigned = ''white''"
    "turn_number example_resigned = 0"
    by (simp_all add: example_resigned_def example_board_def)
  have grid: "grid_ok (board example_resigned)"
    by (auto simp add: grid_ok_def example_resigned_def example_board_def board_size_def)
  have piece: "map_of (figure_id_to_piece_map example_resigned) ''w1'' = Some piece
      \<longleftrightarrow> piece = 0" for piece
    by (auto simp add: example_resigned_def example_board_def)
  have obj: "row (objects example_resigned 0) = 6" "col (objects example_resigned 0) = 0"
    by (simp_all add: example_resigned_def example_board_def initial_piece_def)
  have old: "\<forall>piece. map_of (figure_id_to_piece_map example_resigned) ''w1'' = Some piece \<longrightarrow>
               in_bounds (row (objects example_resigned piece)) (col (objects example_resigned piece))"
    by (simp add: piece obj in_bounds_def board_size_def)
  have tgt: "\<forall>target. get_piece_at example_resigned 5 1 = Some target \<longrightarrow>
               in_bounds (row (objects example_resigned target)) (col (objects example_resigned target))"
    by (simp add: example_resigned_def example_board_def get_piece_at_def coord_key_def
        initial_piece_def in_bounds_def board_size_def)
  from accepted_move_applied_in_any_status [OF h grid old tgt, of 0]
  obtain p b' where r: "map_of (figure_id_to_piece_map example_resigned) ''w1'' = Some p"
     "move_piece example_resigned ''w1'' 5 1 (UUID ''A'') 0 = Inr b'"
     "game_status b' = game_status example_resigned"
     "current_player b' = (if current_player example_resigned = ''white'' then ''black'' else ''white'')"
     "turn_number b' = turn_number example_resigned + 1"
     "row (objects b' p) = 5" "col (objects b' p) = 1"
     "get_piece_at b' 5 1 = Some p"
     "board b' ! nat 5 ! nat 1 = Some (objects b' p)"
     "(row (objects example_resigned p), col (objects example_resigned p)) \<noteq> (5, 1) \<longrightarrow>
          get_piece_at b' (row (objects example_resigned p)) (col (objects example_resigned p)) = None
          \<and> board b' ! nat (row (objects example_resigned p)) ! nat (col (objects example_resigned p)) = None"
     "\<forall>s. move_piece (example_resigned\<lparr>game_status := s\<rparr>) ''w1'' 5 1 (UUID ''A'') 0
              = Inr (b'\<lparr>game_status := s\<rparr>)"
    by blast
  from r(1) have p: "p = 0" by (simp add: piece)
  from r(10) have vacated: "get_piece_at b' 6 0 = None" "board b' ! 6 ! 0 = None"
    by (simp_all add: p obj)
  from r(9) have cell: "board b' ! 5 ! 1 = Some (objects b' 0)"
    by (simp add: p)
  from r(3-8) have rest: "game_status b' = RESIGNED" "current_player b' = ''black''"
    "turn_number b' = 1" "row (objects b' 0) = 5" "col (objects b' 0) = 1"
    "get_piece_at b' 5 1 = Some 0"
    by (simp_all add: p st)
  from r(11) have "move_piece (example_resigned\<lparr>game_status := IN_PROGRESS\<rparr>) ''w1'' 5 1 (UUID ''A'') 0
             = Inr (b'\<lparr>game_status := IN_PROGRESS\<rparr>)"
    by (rule spec)
  with h st(1) grid r(2) rest cell vacated show ?thesis
    by blast
qed

section \<open>The connection registry\<close>

text \<open>
  C10. Removing a connection from the registry is not idempotent. When the room has no
  entry, \<open>disconnect\<close> changes nothing and returns. When the room has an entry and the
  connection is not in its set, \<open>disconnect\<close> raises KeyError. So after a successful
  \<open>disconnect\<close> that left other connections in the room, a second \<open>disconnect\<close> of the
  same connection raises KeyError (when it was the last connection the entry is deleted
  and the second call is a no-op). And after a \<open>broadcast\<close> in which every send failed,
  the room is still registered, with the empty set, so that \<open>disconnect\<close> of any
  connection raises KeyError.
\<close>

theorem disconnect_not_idempotent:
  "(active_connections m room_id = None \<longrightarrow> disconnect m ws room_id = Inr m)
   \<and> (\<forall>conns. active_connections m room_id = Some conns \<and> ws \<notin> conns \<longrightarrow>
         disconnect m ws room_id = Inl KeyError)
   \<and> (\<forall>conns. active_connections m room_id = Some conns \<and> ws \<in> conns \<longrightarrow>
         (\<exists>m'. disconnect m ws room_id = Inr m'
            \<and> active_connections m' room_id = (if conns = {ws} then None else Some (conns - {ws}))
            \<and> disconnect m' ws room_id = (if conns = {ws} then Inr m' else Inl KeyError)))
   \<and> (\<forall>conns fails. active_connections m room_id = Some conns \<and> (\<forall>w \<in> conns. fails w) \<longrightarrow>
         active_connections (broadcast m room_id fails) room_id = Some {}
         \<and> disconnect (broadcast m room_id fails) ws room_id = Inl KeyError)"
  (is "?A \<and> ?B \<and> ?C \<and> ?D")
proof -
  have a: ?A
    by (simp add: disconnect_def)
  have b: ?B
    by (simp add: disconnect_def)
  have c: ?C
  proof (intro allI impI)
    fix conns
    assume h: "active_connections m room_id = Some conns \<and> ws \<in> conns"
    show "\<exists>m'. disconnect m ws room_id = Inr m'
            \<and> active_connections m' room_id = (if conns = {ws} then None else Some (conns - {ws}))
            \<and> disconnect m' ws room_id = (if conns = {ws} then Inr m' else Inl KeyError)"
    proof (cases "conns = {ws}")
      case True
      with h show ?thesis
        by (simp add: disconnect_def)
    next
      case False
      with h have "conns - {ws} \<noteq> {}"
        by auto
      with h False show ?thesis
        by (simp add: disconnect_def)
    qed
  qed
  have d: ?D
  proof (intro allI impI)
    fix conns fails
    assume h: "active_connections m room_id = Some conns \<and> (\<forall>w \<in> conns. fails w)"
    then have "conns - Set.filter fails conns = {}"
      by auto
    with h show "active_connections (broadcast m room_id fails) room_id = Some {}
         \<and> disconnect (broadcast m room_id fails) ws room_id = Inl KeyError"
      by (simp add: broadcast_def disconnect_def Let_def)
  qed
  show ?thesis
    by (intro conjI) (rule a, rule b, rule c, rule d)
qed

theorem disconnect_not_idempotent_witness:
  "active_connections (connect (connect no_connections 1 (UUID ''r'')) 2 (UUID ''r'')) (UUID ''r'')
     = Some {1, 2}
   \<and> (\<exists>m'. disconnect (connect (connect no_connections 1 (UUID ''r'')) 2 (UUID ''r'')) 1 (UUID ''r'')
              = Inr m'
           \<and> active_connections m' (UUID ''r'') = Some {2}
           \<and> disconnect m' 1 (UUID ''r'') = Inl KeyError)
   \<and> active_connections
        (broadcast (connect (connect no_connections 1 (UUID ''r'')) 2 (UUID ''r'')) (UUID ''r'')
           (\<lambda>_. True)) (UUID ''r'') = Some {}
   \<and> disconnect
        (broadcast (connect (connect no_connections 1 (UUID ''r'')) 2 (UUID ''r'')) (UUID ''r'')
           (\<lambda>_. True)) 1 (UUID ''r'') = Inl KeyError
   \<and> disconnect no_connections 1 (UUID ''r'') = Inr no_connections"
proof -
  define m where "m = connect (connect no_connections 1 (UUID ''r'')) 2 (UUID ''r'')"
  have conns: "active_connections m (UUID ''r'') = Some {1, 2}"
    by (auto simp add: m_def connect_def no_connections_def)
  have none: "active_connections no_connections (UUID ''r'') = None"
    by (simp add: no_connections_def)
  note c2 = conjunct2
  have h3: "active_connections m (UUID ''r'') = Some {1, 2} \<and> (1::nat) \<in> {1, 2}"
    using conns by simp
  have h4: "active_connections m (UUID ''r'') = Some {1, 2} \<and> (\<forall>w \<in> {1, 2::nat}. (\<lambda>_. True) w)"
    using conns by simp
  note r1 = disconnect_not_idempotent [of no_connections "UUID ''r''" 1, THEN conjunct1, THEN mp,
      OF none]
  note r3 = disconnect_not_idempotent [of m "UUID ''r''" 1, THEN c2, THEN c2, THEN conjunct1,
      THEN spec, THEN mp, OF h3]
  note r4 = disconnect_not_idempotent [of m "UUID ''r''" 1, THEN c2, THEN c2, THEN c2,
      THEN spec, THEN spec, THEN mp, OF h4]
  have ne: "{1, 2} \<noteq> {1::nat}" and diff: "{1, 2} - {1} = {2::nat}"
    by auto
  from r3 have second: "\<exists>m'. disconnect m 1 (UUID ''r'') = Inr m'
            \<and> active_connections m' (UUID ''r'') = Some {2}
            \<and> disconnect m' 1 (UUID ''r'') = Inl KeyError"
    by (simp only: ne diff if_False)
  show ?thesis
    unfolding m_def [symmetric]
    by (intro conjI) (rule conns, rule second, rule r4 [THEN conjunct1], rule r4 [THEN conjunct2],
        rule r1)
qed

section \<open>The invariant is kept\<close>







lemma consistent_game_log [simp]:
  "consistent (self\<lparr>game_log := l\<rparr>) = consistent self"
  by (simp add: consistent_def)

lemma consistent_log_error [simp]: "consistent (log_error self entry) = consistent self"
  by (simp add: log_error_def)






section \<open>The constructor establishes the invariant\<close>


lemma place_pieces_fields:
  "place_pieces self i ps = Inr s' \<Longrightarrow>
   s' = self\<lparr>board := board s', objects := objects s',
             figure_id_to_piece_map := figure_id_to_piece_map s',
             coord_to_piece_map := coord_to_piece_map s'\<rparr>"
proof (induction ps arbitrary: self i)
  case Nil
  then show ?case by simp
next
  case (Cons p ps)
  from Cons.prems obtain g where g: "board_set (board self) (row p) (col p) (Some p) = Inr g"
    by (auto split: sum.splits)
  with Cons.prems have "place_pieces
            (self\<lparr>board := g,
                  objects := (objects self)(i := p),
                  figure_id_to_piece_map :=
                    AList.update (figure_id p) i (figure_id_to_piece_map self),
                  coord_to_piece_map :=
                    (coord_to_piece_map self)(coord_key (row p) (col p) \<mapsto> i)\<rparr>)
            (Suc i) ps = Inr s'"
    by simp
  from Cons.IH [OF this] show ?case
    by (cases s') simp
qed




lemma init_fields:
  assumes "BoardState_init initial_data = Inr b"
  shows "current_player b = get_default (d_current_player initial_data) ''white''"
    "white_hand b = get_default (d_white_hand initial_data) []"
    "black_hand b = get_default (d_black_hand initial_data) []"
    "white_double_add b = get_default (d_white_double_add initial_data) 0"
    "black_double_add b = get_default (d_black_double_add initial_data) 0"
    "game_log b = get_default (d_game_log initial_data) []"
    "moves_log b = get_default (d_moves_log initial_data) []"
    "cards_count b = get_default (d_cards_count initial_data) 0"
    "GameStatus_of_value (get_default (d_game_status initial_data) ''waiting'')
       = Inr (game_status b)"
    "day_night_cycle b = get_default (d_day_night_cycle initial_data) ''day''"
    "turn_number b = get_default (d_turn_number initial_data) 0"
    "players b = get_default (d_players initial_data) [''white'' \<mapsto> None, ''black'' \<mapsto> None]"
    "last_move_at b = get_default (d_last_move_at initial_data) None"
proof -
  from assms obtain st where
    st: "GameStatus_of_value (get_default (d_game_status initial_data) ''waiting'') = Inr st"
    by (auto simp add: BoardState_init_def split: sum.splits)
  with assms have "place_pieces
            \<lparr>current_player = get_default (d_current_player initial_data) ''white'',
             white_hand = get_default (d_white_hand initial_data) [],
             black_hand = get_default (d_black_hand initial_data) [],
             white_double_add = get_default (d_white_double_add initial_data) 0,
             black_double_add = get_default (d_black_double_add initial_data) 0,
             game_log = get_default (d_game_log initial_data) [],
             moves_log = get_default (d_moves_log initial_data) [],
             cards_count = get_default (d_cards_count initial_data) 0,
             game_status = st,
             day_night_cycle = get_default (d_day_night_cycle initial_data) ''day'',
             turn_number = get_default (d_turn_number initial_data) 0,
             players = get_default (d_players initial_data)
                         [''white'' \<mapsto> None, ''black'' \<mapsto> None],
             last_move_at = get_default (d_last_move_at initial_data) None,
             board = replicate (nat board_size) (replicate (nat board_size) None),
             objects = (\<lambda>_. unallocated),
             figure_id_to_piece_map = [],
             coord_to_piece_map = Map.empty\<rparr>
            0
            (get_default (d_board_pieces initial_data) []) = Inr b"
    by (simp add: BoardState_init_def)
  note f = place_pieces_fields [OF this]
  show "current_player b = get_default (d_current_player initial_data) ''white''"
    "white_hand b = get_default (d_white_hand initial_data) []"
    "black_hand b = get_default (d_black_hand initial_data) []"
    "white_double_add b = get_default (d_white_double_add initial_data) 0"
    "black_double_add b = get_default (d_black_double_add initial_data) 0"
    "game_log b = get_default (d_game_log initial_data) []"
    "moves_log b = get_default (d_moves_log initial_data) []"
    "cards_count b = get_default (d_cards_count initial_data) 0"
    "GameStatus_of_value (get_default (d_game_status initial_data) ''waiting'')
       = Inr (game_status b)"
    "day_night_cycle b = get_default (d_day_night_cycle initial_data) ''day''"
    "turn_number b = get_default (d_turn_number initial_data) 0"
    "players b = get_default (d_players initial_data) [''white'' \<mapsto> None, ''black'' \<mapsto> None]"
    "last_move_at b = get_default (d_last_move_at initial_data) None"
    by (subst f, simp add: st)+
qed



section \<open>The initial layout\<close>


section \<open>The example position\<close>




section \<open>Captures\<close>



section \<open>The invariant of the grid and the indexes\<close>






end
